theory Spec2Isabelle
  imports Complex_Main
begin

section \<open>JavaScript values\<close>

text \<open>
  The upstream payload is whatever \<^verbatim>\<open>response.json()\<close> gives, and the normalizer
  inspects it with \<^verbatim>\<open>typeof\<close> and truthiness tests, so a payload is a dynamically typed
  value. An object is the list of its own properties in enumeration order, keys distinct.
  A character is a code unit below 256. A number is an integer: \<open>JNum n\<close> stands for the
  double \<open>n\<close> when \<open>n\<close> is a safe integer (\<open>safe_integer\<close> below), and the arithmetic and
  the printing of numbers are those of the code on safe integers only. Fractions, and
  integers from \<open>2 ^ 53\<close> on, where doubles round, are outside the model: the statements
  on the page parameter and on the number of pages carry the bound, and a position in an
  array is below \<open>2 ^ 32\<close>.
\<close>

datatype jsval =
    JUndefined
  | JNull
  | JBool bool
  | JNum int
  | JStr string
  | JArr "jsval list"
  | JObj "(string \<times> jsval) list"

text \<open>What a \<^verbatim>\<open>throw\<close> or a rejected promise carries.\<close>

datatype js_error =
    TypeError
  | ApiError nat
  | NetworkError
  | SyntaxError

text \<open>The results of number arithmetic: an integer, \<^verbatim>\<open>NaN\<close>, or an infinity.\<close>

datatype jsnum = Fin int | NaN | PosInf | NegInf

text \<open>
  \<^verbatim>\<open>Number.isSafeInteger(n)\<close>: the integers that a double holds exactly together with
  their neighbours.
\<close>

definition safe_integer :: "int \<Rightarrow> bool" where
  "safe_integer n = (- (2 ^ 53 - 1) \<le> n \<and> n \<le> 2 ^ 53 - 1)"

definition js_bind :: "js_error + 'a \<Rightarrow> ('a \<Rightarrow> js_error + 'b) \<Rightarrow> js_error + 'b" where
  "js_bind m f = (case m of Inl e \<Rightarrow> Inl e | Inr v \<Rightarrow> f v)"

text \<open>\<^verbatim>\<open>try { m } catch { h }\<close>\<close>

definition js_catch :: "js_error + 'a \<Rightarrow> (js_error \<Rightarrow> 'a) \<Rightarrow> 'a" where
  "js_catch m h = (case m of Inl e \<Rightarrow> h e | Inr v \<Rightarrow> v)"

fun truthy :: "jsval \<Rightarrow> bool" where
  "truthy JUndefined = False"
| "truthy JNull = False"
| "truthy (JBool b) = b"
| "truthy (JNum n) = (n \<noteq> 0)"
| "truthy (JStr s) = (s \<noteq> [])"
| "truthy (JArr xs) = True"
| "truthy (JObj kvs) = True"

text \<open>\<^verbatim>\<open>a || b\<close> on two values.\<close>

definition js_or :: "jsval \<Rightarrow> jsval \<Rightarrow> jsval" where
  "js_or a b = (if truthy a then a else b)"

fun js_typeof :: "jsval \<Rightarrow> string" where
  "js_typeof JUndefined = ''undefined''"
| "js_typeof JNull = ''object''"
| "js_typeof (JBool b) = ''boolean''"
| "js_typeof (JNum n) = ''number''"
| "js_typeof (JStr s) = ''string''"
| "js_typeof (JArr xs) = ''object''"
| "js_typeof (JObj kvs) = ''object''"

fun nullish :: "jsval \<Rightarrow> bool" where
  "nullish JUndefined = True"
| "nullish JNull = True"
| "nullish v = False"

subsection \<open>Numbers as text\<close>

definition digit_char :: "nat \<Rightarrow> char" where
  "digit_char d = ''0123456789'' ! d"

function NumberToString_nat :: "nat \<Rightarrow> string" where
  "NumberToString_nat n =
     (if n < 10 then [digit_char n]
      else NumberToString_nat (n div 10) @ [digit_char (n mod 10)])"
  by pat_completeness auto
termination
  by (relation "measure id") auto

declare NumberToString_nat.simps [simp del]

text \<open>
  \<^verbatim>\<open>String(n)\<close> for a safe integer \<open>n\<close>: its decimal digits. (From \<open>10 ^ 21\<close> on the code
  prints an exponent; such numbers are outside the model.)
\<close>

definition NumberToString :: "int \<Rightarrow> string" where
  "NumberToString i =
     (if i < 0 then CHR ''-'' # NumberToString_nat (nat (- i)) else NumberToString_nat (nat i))"

subsection \<open>Property access\<close>

definition is_digit :: "char \<Rightarrow> bool" where
  "is_digit c = (c \<in> set ''0123456789'')"

definition digit_val :: "char \<Rightarrow> nat" where
  "digit_val c = of_char c - 48"

text \<open>A key is an array index when it is the canonical decimal text of a number.\<close>

definition array_index :: "string \<Rightarrow> nat option" where
  "array_index k =
     (if k = ''0'' then Some 0
      else if k \<noteq> [] \<and> hd k \<noteq> CHR ''0'' \<and> list_all is_digit k
        then Some (foldl (\<lambda>acc c. 10 * acc + digit_val c) 0 k)
      else None)"

text \<open>
  \<^verbatim>\<open>v.k\<close> and \<^verbatim>\<open>v[k]\<close> on a value that is neither \<^verbatim>\<open>null\<close> nor \<^verbatim>\<open>undefined\<close>:
  an own property of an object, the length or an element of an array or of a string.
  None of the keys the code reads is a property of a prototype.
\<close>

fun js_prop :: "jsval \<Rightarrow> string \<Rightarrow> jsval" where
  "js_prop (JObj kvs) k = (case map_of kvs k of Some v \<Rightarrow> v | None \<Rightarrow> JUndefined)"
| "js_prop (JArr xs) k =
     (if k = ''length'' then JNum (int (length xs))
      else case array_index k of
             Some i \<Rightarrow> if i < length xs then xs ! i else JUndefined
           | None \<Rightarrow> JUndefined)"
| "js_prop (JStr s) k =
     (if k = ''length'' then JNum (int (length s))
      else case array_index k of
             Some i \<Rightarrow> if i < length s then JStr [s ! i] else JUndefined
           | None \<Rightarrow> JUndefined)"
| "js_prop v k = JUndefined"

text \<open>Reading a property of \<^verbatim>\<open>null\<close> or \<^verbatim>\<open>undefined\<close> throws.\<close>

definition js_get :: "jsval \<Rightarrow> string \<Rightarrow> js_error + jsval" where
  "js_get v k = (if nullish v then Inl TypeError else Inr (js_prop v k))"

text \<open>\<^verbatim>\<open>v?.k\<close>\<close>

definition js_get_opt :: "jsval \<Rightarrow> string \<Rightarrow> jsval" where
  "js_get_opt v k = (if nullish v then JUndefined else js_prop v k)"

section \<open>The query formatter\<close>

text \<open>
  \<^verbatim>\<open>CompanySearchParams\<close>: every field is optional. The fields carry the prefix \<open>sp_\<close>,
  the names \<open>businessId\<close> and \<open>location\<close> being fields of \<^verbatim>\<open>Company\<close> as well.
\<close>

record CompanySearchParams =
  sp_location :: "string option"
  sp_businessId :: "string option"
  sp_registrationDateStart :: "string option"
  sp_registrationDateEnd :: "string option"
  sp_page :: "int option"
  sp_maxResults :: "int option"

text \<open>\<^verbatim>\<open>if (params.f) { formattedParams.f = params.f; }\<close>\<close>

definition set_if_truthy :: "string \<Rightarrow> string option \<Rightarrow> (string \<times> string) list" where
  "set_if_truthy key field =
     (case field of None \<Rightarrow> [] | Some s \<Rightarrow> if s \<noteq> [] then [(key, s)] else [])"

text \<open>\<^verbatim>\<open>params.page || 0\<close>\<close>

definition page_or_zero :: "int option \<Rightarrow> int" where
  "page_or_zero p = (case p of None \<Rightarrow> 0 | Some n \<Rightarrow> if n \<noteq> 0 then n else 0)"

text \<open>
  The result object, as its properties in insertion order. The sum \<^verbatim>\<open>(params.page || 0) + 1\<close>
  is a sum of doubles in the code, which is the sum of integers written here when the page
  is a safe integer.
\<close>

definition formatSearchParams :: "CompanySearchParams \<Rightarrow> (string \<times> string) list" where
  "formatSearchParams params =
     set_if_truthy ''businessId'' (sp_businessId params)
     @ set_if_truthy ''location'' (sp_location params)
     @ set_if_truthy ''registrationDateStart'' (sp_registrationDateStart params)
     @ set_if_truthy ''registrationDateEnd'' (sp_registrationDateEnd params)
     @ [(''totalResults'', ''true'')]
     @ [(''page'', NumberToString (page_or_zero (sp_page params) + 1))]"

section \<open>Coercions and library functions\<close>

fun join_comma :: "string list \<Rightarrow> string" where
  "join_comma [] = []"
| "join_comma [x] = x"
| "join_comma (x # y # ys) = x @ '','' @ join_comma (y # ys)"

text \<open>Running a list of computations in order; the first error is the result.\<close>

fun js_sequence :: "(js_error + 'a) list \<Rightarrow> js_error + 'a list" where
  "js_sequence [] = Inr []"
| "js_sequence (m # ms) = js_bind m (\<lambda>v. js_bind (js_sequence ms) (\<lambda>vs. Inr (v # vs)))"

text \<open>
  \<^verbatim>\<open>String(v)\<close> and the conversion inside a template literal. An array joins its elements
  with commas, \<^verbatim>\<open>null\<close> and \<^verbatim>\<open>undefined\<close> elements as the empty text. An object has
  the inherited \<^verbatim>\<open>toString\<close> unless a property of its own hides it; a parsed payload holds
  no function, so the hiding property is not callable and the conversion throws.
\<close>

fun js_String :: "jsval \<Rightarrow> js_error + string" where
  "js_String JUndefined = Inr ''undefined''"
| "js_String JNull = Inr ''null''"
| "js_String (JBool b) = Inr (if b then ''true'' else ''false'')"
| "js_String (JNum n) = Inr (NumberToString n)"
| "js_String (JStr s) = Inr s"
| "js_String (JArr xs) =
     js_bind (js_sequence (map (\<lambda>x. if nullish x then Inr [] else js_String x) xs))
       (\<lambda>parts. Inr (join_comma parts))"
| "js_String (JObj kvs) =
     (if ''toString'' \<in> set (map fst kvs) then Inl TypeError else Inr ''[object Object]'')"

text \<open>
  \<^verbatim>\<open>ToNumber\<close>. The conversion of a text to a number is the parameter \<open>s2n\<close> of the model:
  no claim depends on it.
\<close>

definition ToNumber :: "(string \<Rightarrow> jsnum) \<Rightarrow> jsval \<Rightarrow> js_error + jsnum" where
  "ToNumber s2n v =
     (case v of
        JUndefined \<Rightarrow> Inr NaN
      | JNull \<Rightarrow> Inr (Fin 0)
      | JBool b \<Rightarrow> Inr (Fin (if b then 1 else 0))
      | JNum n \<Rightarrow> Inr (Fin n)
      | JStr s \<Rightarrow> Inr (s2n s)
      | _ \<Rightarrow> js_bind (js_String v) (\<lambda>s. Inr (s2n s)))"

text \<open>\<^verbatim>\<open>v > 0\<close>\<close>

definition js_gt0 :: "(string \<Rightarrow> jsnum) \<Rightarrow> jsval \<Rightarrow> js_error + bool" where
  "js_gt0 s2n v =
     js_bind (ToNumber s2n v)
       (\<lambda>n. Inr (case n of Fin i \<Rightarrow> 0 < i | PosInf \<Rightarrow> True | _ \<Rightarrow> False))"

text \<open>
  \<^verbatim>\<open>Math.ceil(x / m)\<close> for a number \<open>x\<close> and an integer \<open>m\<close>. The code divides doubles;
  for a safe integer \<open>x\<close> the ceiling of the double quotient is the ceiling of the exact
  quotient written here (\<open>ceiling_of_rounded_quotient\<close> below), beyond the bound it need
  not be.
\<close>

fun Math_ceil_div :: "jsnum \<Rightarrow> int \<Rightarrow> jsnum" where
  "Math_ceil_div NaN m = NaN"
| "Math_ceil_div (Fin a) m =
     (if m = 0 then (if a = 0 then NaN else if 0 < a then PosInf else NegInf)
      else Fin \<lceil>(of_int a :: rat) / of_int m\<rceil>)"
| "Math_ceil_div PosInf m = (if 0 \<le> m then PosInf else NegInf)"
| "Math_ceil_div NegInf m = (if 0 \<le> m then NegInf else PosInf)"

subsection \<open>JSON text\<close>

definition hex_char :: "nat \<Rightarrow> char" where
  "hex_char d = ''0123456789abcdef'' ! d"

definition QuoteJSONChar :: "char \<Rightarrow> string" where
  "QuoteJSONChar c =
     (if c = CHR 0x08 then [CHR 0x5C, CHR ''b'']
      else if c = CHR 0x09 then [CHR 0x5C, CHR ''t'']
      else if c = CHR 0x0A then [CHR 0x5C, CHR ''n'']
      else if c = CHR 0x0C then [CHR 0x5C, CHR ''f'']
      else if c = CHR 0x0D then [CHR 0x5C, CHR ''r'']
      else if c = CHR 0x22 then [CHR 0x5C, CHR 0x22]
      else if c = CHR 0x5C then [CHR 0x5C, CHR 0x5C]
      else if (of_char c :: nat) < 32
        then [CHR 0x5C, CHR ''u'', CHR ''0'', CHR ''0'',
              hex_char (of_char c div 16), hex_char (of_char c mod 16)]
      else [c])"

definition QuoteJSONString :: "string \<Rightarrow> string" where
  "QuoteJSONString s = CHR 0x22 # concat (map QuoteJSONChar s) @ [CHR 0x22]"

text \<open>
  \<^verbatim>\<open>JSON.stringify(v)\<close>; \<open>None\<close> is the result \<^verbatim>\<open>undefined\<close>. Inside an array an
  undefined element is written \<^verbatim>\<open>null\<close>, inside an object its property is left out.
\<close>

fun JSON_stringify :: "jsval \<Rightarrow> string option" where
  "JSON_stringify JUndefined = None"
| "JSON_stringify JNull = Some ''null''"
| "JSON_stringify (JBool b) = Some (if b then ''true'' else ''false'')"
| "JSON_stringify (JNum n) = Some (NumberToString n)"
| "JSON_stringify (JStr s) = Some (QuoteJSONString s)"
| "JSON_stringify (JArr xs) =
     Some (''['' @ join_comma (map (\<lambda>x. case JSON_stringify x of None \<Rightarrow> ''null'' | Some t \<Rightarrow> t) xs)
           @ '']'')"
| "JSON_stringify (JObj kvs) =
     Some (''{'' @ join_comma (concat (map (\<lambda>kv. case JSON_stringify (snd kv) of
                                                  None \<Rightarrow> []
                                                | Some t \<Rightarrow> [QuoteJSONString (fst kv) @ '':'' @ t]) kvs))
           @ ''}'')"

subsection \<open>Strings and arrays\<close>

text \<open>\<^verbatim>\<open>s.includes(p)\<close>\<close>

fun js_includes :: "string \<Rightarrow> string \<Rightarrow> bool" where
  "js_includes [] p = (p = [])"
| "js_includes (c # cs) p = (take (length p) (c # cs) = p \<or> js_includes cs p)"

definition is_js_space :: "char \<Rightarrow> bool" where
  "is_js_space c = (c \<in> set [CHR 0x09, CHR 0x0A, CHR 0x0B, CHR 0x0C, CHR 0x0D, CHR 0x20, CHR 0xA0])"

text \<open>\<^verbatim>\<open>s.trim()\<close>\<close>

definition js_trim :: "string \<Rightarrow> string" where
  "js_trim s = rev (dropWhile is_js_space (rev (dropWhile is_js_space s)))"

text \<open>\<^verbatim>\<open>Array.prototype.find\<close> with a callback that may throw.\<close>

fun js_find :: "(jsval \<Rightarrow> js_error + bool) \<Rightarrow> jsval list \<Rightarrow> js_error + jsval" where
  "js_find p [] = Inr JUndefined"
| "js_find p (x # xs) = js_bind (p x) (\<lambda>b. if b then Inr x else js_find p xs)"

text \<open>
  \<^verbatim>\<open>v?.find(p)\<close>: \<^verbatim>\<open>undefined\<close> when \<open>v\<close> is nullish; a value other than an array has no
  method \<^verbatim>\<open>find\<close>, and calling it throws.
\<close>

definition js_find_opt :: "jsval \<Rightarrow> (jsval \<Rightarrow> js_error + bool) \<Rightarrow> js_error + jsval" where
  "js_find_opt v p =
     (case v of
        JUndefined \<Rightarrow> Inr JUndefined
      | JNull \<Rightarrow> Inr JUndefined
      | JArr xs \<Rightarrow> js_find p xs
      | _ \<Rightarrow> Inl TypeError)"

text \<open>\<^verbatim>\<open>v.map((result, index) => f(result, index))\<close> on a value that is not nullish.\<close>

definition js_map :: "jsval \<Rightarrow> (jsval \<Rightarrow> nat \<Rightarrow> 'a) \<Rightarrow> js_error + 'a list" where
  "js_map v f =
     (case v of
        JArr xs \<Rightarrow> Inr (map (\<lambda>(i, x). f x i) (enumerate 0 xs))
      | _ \<Rightarrow> Inl TypeError)"

text \<open>\<^verbatim>\<open>v && v.length > 0\<close> as a condition.\<close>

definition nonEmpty :: "(string \<Rightarrow> jsnum) \<Rightarrow> jsval \<Rightarrow> js_error + bool" where
  "nonEmpty s2n v =
     (if truthy v then js_bind (js_get v ''length'') (js_gt0 s2n) else Inr False)"

text \<open>The guard \<^verbatim>\<open>v && typeof v === "string"\<close>, with the text when it holds.\<close>

definition truthy_string :: "jsval \<Rightarrow> string option" where
  "truthy_string v =
     (if truthy v \<and> js_typeof v = ''string''
      then (case v of JStr s \<Rightarrow> Some s | _ \<Rightarrow> None)
      else None)"

section \<open>The response normalizer\<close>

definition BASE_URL :: string where
  "BASE_URL = ''https://avoindata.prh.fi/opendata-ytj-api/v3''"

record Company =
  businessId :: string
  name :: string
  registrationDate :: string
  endDate :: jsval
  companyForm :: string
  location :: string
  detailsUri :: string

record CompanySearchResponse =
  results :: "Company list"
  totalResults :: jsval
  currentPage :: int
  totalPages :: jsnum

subsection \<open>One upstream object\<close>

text \<open>\<^verbatim>\<open>(name) => name.language === "FI" && !name.endDate\<close>\<close>

definition isCurrentFinnish :: "jsval \<Rightarrow> js_error + bool" where
  "isCurrentFinnish n =
     js_bind (js_get n ''language'') (\<lambda>lang.
       if lang = JStr ''FI''
       then js_bind (js_get n ''endDate'') (\<lambda>e. Inr (\<not> truthy e))
       else Inr False)"

text \<open>\<^verbatim>\<open>(address) => !address.endDate\<close>\<close>

definition hasNoEndDate :: "jsval \<Rightarrow> js_error + bool" where
  "hasNoEndDate a = js_bind (js_get a ''endDate'') (\<lambda>e. Inr (\<not> truthy e))"

text \<open>The value of \<^verbatim>\<open>primaryName\<close>.\<close>

definition resolveName :: "(string \<Rightarrow> jsnum) \<Rightarrow> jsval \<Rightarrow> js_error + jsval" where
  "resolveName s2n result =
     js_bind (js_get result ''names'') (\<lambda>names.
     js_bind (js_find_opt names isCurrentFinnish) (\<lambda>finnishName.
       if truthy (js_get_opt finnishName ''name'')
       then Inr (js_get_opt finnishName ''name'')
       else js_bind (nonEmpty s2n names) (\<lambda>some.
         if some
         then js_bind (js_get names ''0'') (\<lambda>first.
              js_bind (js_String (js_or (js_get_opt first ''name'') (JStr []))) (\<lambda>s.
                Inr (JStr s)))
         else Inr (JStr []))))"


definition placeholderId :: "nat \<Rightarrow> string" where
  "placeholderId index = ''company-'' @ NumberToString_nat index"

text \<open>
  \<^verbatim>\<open>businessIdStr\<close> from the value of \<^verbatim>\<open>result.businessId\<close>. The inner
  \<^verbatim>\<open>try\<close> gives the placeholder when a conversion throws.
\<close>

definition resolveBusinessId :: "jsval \<Rightarrow> nat \<Rightarrow> string" where
  "resolveBusinessId bid index =
     (case bid of
        JStr s \<Rightarrow> s
      | _ \<Rightarrow>
        if truthy bid
        then js_catch
               (if js_typeof bid = ''object''
                then (case truthy_string (js_prop bid ''value'') of
                        Some s \<Rightarrow> Inr s
                      | None \<Rightarrow>
                        (case truthy_string (js_prop bid ''id'') of
                           Some s \<Rightarrow> Inr s
                         | None \<Rightarrow> Inr (placeholderId index)))
                else js_String bid)
               (\<lambda>e. placeholderId index)
        else placeholderId index)"

text \<open>
  \<^verbatim>\<open>registrationDateStr\<close> from the value of \<^verbatim>\<open>result.registrationDate\<close>. Were
  \<^verbatim>\<open>JSON.stringify\<close> to give \<^verbatim>\<open>undefined\<close>, the call of \<^verbatim>\<open>includes\<close> would throw
  inside the inner \<^verbatim>\<open>try\<close>, whose handler gives the empty text.
\<close>

definition resolveRegistrationDate :: "jsval \<Rightarrow> string" where
  "resolveRegistrationDate rd =
     (case rd of
        JStr s \<Rightarrow> s
      | _ \<Rightarrow>
        if truthy rd
        then (case truthy_string (js_prop rd ''value'') of
                Some s \<Rightarrow> s
              | None \<Rightarrow>
                (case truthy_string (js_prop rd ''registrationDate'') of
                   Some s \<Rightarrow> s
                 | None \<Rightarrow>
                   (case JSON_stringify rd of
                      None \<Rightarrow> []
                    | Some t \<Rightarrow>
                      if t = ''{}'' \<or> js_includes t ''[object Object]'' then [] else t)))
        else [])"

text \<open>
  \<^verbatim>\<open>companyFormStr\<close>. The entry \<open>form\<close> is truthy where it is serialized, so
  \<^verbatim>\<open>JSON.stringify\<close> gives a text there.
\<close>

definition resolveCompanyForm :: "(string \<Rightarrow> jsnum) \<Rightarrow> jsval \<Rightarrow> js_error + string" where
  "resolveCompanyForm s2n result =
     js_bind (js_get result ''companyForms'') (\<lambda>forms.
     js_bind (nonEmpty s2n forms) (\<lambda>some.
       if some
       then js_bind (js_get forms ''0'') (\<lambda>form.
              case form of
                JStr s \<Rightarrow> Inr s
              | _ \<Rightarrow>
                if truthy form
                then (case js_prop form ''name'' of
                        JStr s \<Rightarrow> Inr s
                      | _ \<Rightarrow> Inr (case JSON_stringify form of None \<Rightarrow> [] | Some t \<Rightarrow> t))
                else Inr [])
       else Inr []))"

text \<open>\<^verbatim>\<open>locationStr\<close> from \<^verbatim>\<open>primaryAddress\<close>.\<close>

definition resolveLocation :: "jsval \<Rightarrow> js_error + string" where
  "resolveLocation primaryAddress =
     (if truthy primaryAddress
      then js_bind (js_String (js_or (js_prop primaryAddress ''postCode'') (JStr []))) (\<lambda>code.
           js_bind (js_String
                      (js_or (js_get_opt (js_get_opt (js_prop primaryAddress ''postOffices'') ''0'')
                                ''city'')
                         (JStr []))) (\<lambda>city.
             Inr (js_trim (code @ '' '' @ city))))
      else Inr [])"

text \<open>The body of the \<^verbatim>\<open>try\<close> block of the callback.\<close>

definition transformBody :: "(string \<Rightarrow> jsnum) \<Rightarrow> jsval \<Rightarrow> nat \<Rightarrow> js_error + Company" where
  "transformBody s2n result index =
     js_bind (resolveName s2n result) (\<lambda>primaryName.
     js_bind (js_get result ''addresses'') (\<lambda>addresses.
     js_bind (js_find_opt addresses hasNoEndDate) (\<lambda>primaryAddress.
     js_bind (js_get result ''businessId'') (\<lambda>bid.
     js_bind (js_get result ''registrationDate'') (\<lambda>rd.
     js_bind (resolveCompanyForm s2n result) (\<lambda>companyFormStr.
     js_bind (resolveLocation primaryAddress) (\<lambda>locationStr.
     js_bind (js_get result ''endDate'') (\<lambda>ed.
     js_bind (js_String primaryName) (\<lambda>nameStr.
       Inr \<lparr> businessId = resolveBusinessId bid index,
             name = nameStr,
             registrationDate = resolveRegistrationDate rd,
             endDate = js_or ed (JStr []),
             companyForm = companyFormStr,
             location = locationStr,
             detailsUri = BASE_URL @ ''/companies/'' @ resolveBusinessId bid index \<rparr>)))))))))"

text \<open>The safe default object of the \<^verbatim>\<open>catch\<close> block.\<close>

definition errorRecord :: "nat \<Rightarrow> Company" where
  "errorRecord index =
     \<lparr> businessId = ''error-'' @ NumberToString_nat index,
       name = ''Error processing data'',
       registrationDate = [],
       endDate = JStr [],
       companyForm = [],
       location = [],
       detailsUri = [] \<rparr>"

text \<open>The callback of \<^verbatim>\<open>data.companies.map\<close>.\<close>

definition transformCompany :: "(string \<Rightarrow> jsnum) \<Rightarrow> jsval \<Rightarrow> nat \<Rightarrow> Company" where
  "transformCompany s2n result index =
     js_catch (transformBody s2n result index) (\<lambda>e. errorRecord index)"

subsection \<open>The page\<close>

definition emptyPage :: "int \<Rightarrow> CompanySearchResponse" where
  "emptyPage page = \<lparr> results = [], totalResults = JNum 0, currentPage = page, totalPages = Fin 0 \<rparr>"

text \<open>
  \<^verbatim>\<open>transformResponse(data, page, maxResults)\<close>; an omitted \<open>page\<close> is 0 and an omitted
  \<open>maxResults\<close> is 100.
\<close>

definition transformResponse ::
  "(string \<Rightarrow> jsnum) \<Rightarrow> jsval \<Rightarrow> int \<Rightarrow> int \<Rightarrow> js_error + CompanySearchResponse" where
  "transformResponse s2n data page maxResults =
     (if \<not> truthy data \<or> \<not> truthy (js_prop data ''companies'')
      then Inr (emptyPage page)
      else js_bind (js_map (js_prop data ''companies'') (transformCompany s2n)) (\<lambda>companies.
           let total = js_or (js_prop data ''totalResults'') (JNum (int (length companies))) in
           js_bind (ToNumber s2n total) (\<lambda>t.
             Inr \<lparr> results = companies,
                   totalResults = total,
                   currentPage = page,
                   totalPages = Math_ceil_div t maxResults \<rparr>)))"

section \<open>The fetch orchestrator\<close>

text \<open>What \<^verbatim>\<open>response.json()\<close> settles to.\<close>

datatype json_outcome = JsonRejected | JsonResolved jsval

text \<open>What \<^verbatim>\<open>fetch(url)\<close> settles to: a rejection, or a response with its status and body.\<close>

datatype fetch_outcome = FetchRejected | FetchResolved nat json_outcome

text \<open>\<^verbatim>\<open>response.ok\<close>\<close>

definition response_ok :: "nat \<Rightarrow> bool" where
  "response_ok status = (200 \<le> status \<and> status \<le> 299)"

text \<open>The body of the \<^verbatim>\<open>try\<close> block, for the outcome of the request.\<close>

definition fetchBody ::
  "(string \<Rightarrow> jsnum) \<Rightarrow> fetch_outcome \<Rightarrow> CompanySearchParams \<Rightarrow> js_error + CompanySearchResponse" where
  "fetchBody s2n outcome params =
     (case outcome of
        FetchRejected \<Rightarrow> Inl NetworkError
      | FetchResolved status body \<Rightarrow>
        if \<not> response_ok status then Inl (ApiError status)
        else (case body of
                JsonRejected \<Rightarrow> Inl SyntaxError
              | JsonResolved data \<Rightarrow>
                transformResponse s2n data (page_or_zero (sp_page params)) 100))"

text \<open>
  \<^verbatim>\<open>fetchCompanies(params)\<close>: what the promise settles to, \<open>Inl\<close> a rejection. The network
  is the function \<open>fetch\<close> from the query parameters of the request to its outcome.
\<close>

definition fetchCompanies ::
  "(string \<Rightarrow> jsnum) \<Rightarrow> ((string \<times> string) list \<Rightarrow> fetch_outcome) \<Rightarrow> CompanySearchParams
     \<Rightarrow> js_error + CompanySearchResponse" where
  "fetchCompanies s2n fetch params =
     (let searchParams = formatSearchParams params in
      Inr (js_catch (fetchBody s2n (fetch searchParams) params)
             (\<lambda>e. emptyPage (page_or_zero (sp_page params)))))"

section \<open>Vocabulary of the properties\<close>

text \<open>A search field counts as set when it holds a text that is not empty.\<close>

definition actually_set :: "string option \<Rightarrow> string option" where
  "actually_set field = (if field = Some [] then None else field)"

text \<open>The three failures of a request: no response, a status outside 200..299, a body that
  is not JSON.\<close>

definition fetch_failed :: "fetch_outcome \<Rightarrow> bool" where
  "fetch_failed outcome =
     (case outcome of
        FetchRejected \<Rightarrow> True
      | FetchResolved status body \<Rightarrow> \<not> response_ok status \<or> body = JsonRejected)"


text \<open>The text of a property that is present and holds a plain string that is not empty.\<close>

definition nonempty_text :: "jsval option \<Rightarrow> string option" where
  "nonempty_text v = (case v of Some (JStr (c # cs)) \<Rightarrow> Some (c # cs) | _ \<Rightarrow> None)"

text \<open>A value that is neither an array nor an object.\<close>

definition primitive :: "jsval \<Rightarrow> bool" where
  "primitive v = (case v of JArr xs \<Rightarrow> False | JObj kvs \<Rightarrow> False | _ \<Rightarrow> True)"

text \<open>
  A conversion of text to numbers for the concrete payloads below, none of which holds a
  text where a number is read.
\<close>

definition noNumber :: "string \<Rightarrow> jsnum" where
  "noNumber s = NaN"

section \<open>Auxiliary facts\<close>

lemma js_bind_simps [simp]:
  "js_bind (Inl e) f = Inl e"
  "js_bind (Inr v) f = f v"
  by (simp_all add: js_bind_def)

lemma js_catch_simps [simp]:
  "js_catch (Inl e) h = h e"
  "js_catch (Inr v) h = v"
  by (simp_all add: js_catch_def)

lemma js_bind_assoc [simp]:
  "js_bind (js_bind m f) g = js_bind m (\<lambda>x. js_bind (f x) g)"
  by (cases m) simp_all

lemma js_bind_Inr [simp]: "js_bind m Inr = m"
  by (cases m) simp_all

lemma page_or_zero_simps [simp]:
  "page_or_zero None = 0"
  "page_or_zero (Some n) = n"
  by (simp_all add: page_or_zero_def)

lemma array_index_literals [simp]:
  "array_index ''companies'' = None"
  "array_index ''totalResults'' = None"
  "array_index ''0'' = Some 0"
  by (simp_all add: array_index_def is_digit_def)

lemma nonempty_text_simps [simp]:
  "nonempty_text None = None"
  "nonempty_text (Some JUndefined) = None"
  by (simp_all add: nonempty_text_def)

lemma truthy_string_eq: "truthy_string v = nonempty_text (Some v)"
  by (cases v) (simp_all add: truthy_string_def nonempty_text_def split: list.splits)

lemma map_of_set_if_truthy:
  "map_of (set_if_truthy key field) k = (if k = key then actually_set field else None)"
  by (simp add: set_if_truthy_def actually_set_def split: option.splits)

lemma keys_set_if_truthy:
  "map fst (set_if_truthy key field) = (if actually_set field = None then [] else [key])"
  by (simp add: set_if_truthy_def actually_set_def split: option.splits)

lemma Math_ceil_div_Fin:
  "m \<noteq> 0 \<Longrightarrow> Math_ceil_div (Fin a) m = Fin (- ((- a) div m))"
  by (simp add: ceiling_divide_eq_div)

text \<open>
  Why the exact quotient may stand for the quotient of doubles in \<open>Math_ceil_div\<close>. The
  double quotient \<open>q'\<close> of two integers is their exact quotient rounded to 53 bits: it is
  the exact quotient when that is an integer below \<open>2 ^ 53\<close>, and it differs from it by at
  most the fraction \<open>1 / 2 ^ 53\<close> of its size otherwise. For a safe dividend such a \<open>q'\<close> has
  the ceiling of the exact quotient.
\<close>

lemma ceiling_of_rounded_quotient:
  fixes a b :: int and q' :: rat
  assumes b: "b \<noteq> 0" and a: "safe_integer a"
    and exact: "(of_int a :: rat) / of_int b \<in> \<int> \<Longrightarrow> q' = of_int a / of_int b"
    and close: "\<bar>q' - of_int a / of_int b\<bar> \<le> \<bar>of_int a / of_int b\<bar> / 2 ^ 53"
  shows "\<lceil>q'\<rceil> = \<lceil>(of_int a :: rat) / of_int b\<rceil>"
proof (cases "(of_int a :: rat) / of_int b \<in> \<int>")
  case True
  then show ?thesis using exact by simp
next
  case False
  define q :: rat where "q = of_int a / of_int b"
  define f where "f = \<lfloor>q\<rfloor>"
  define d :: rat where "d = 1 / \<bar>of_int b\<bar>"
  have dpos: "0 < d" using b by (simp add: d_def)
  have qb: "q * of_int b = of_int a" using b by (simp add: q_def)
  have notint: "q \<noteq> of_int z" for z
    using False unfolding q_def [symmetric] by auto
  have gap: "d \<le> \<bar>q - of_int z\<bar>" for z
  proof -
    have "(q - of_int z) * of_int b = of_int (a - z * b)"
      using qb by (simp add: algebra_simps)
    moreover have "a - z * b \<noteq> 0"
    proof
      assume "a - z * b = 0"
      then have "of_int a = (of_int z :: rat) * of_int b"
        by (metis diff_eq_eq of_int_mult add_0)
      with qb b have "q = of_int z" by simp
      with notint show False by blast
    qed
    then have "1 \<le> \<bar>a - z * b\<bar>" by linarith
    then have "(1::rat) \<le> \<bar>of_int (a - z * b)\<bar>"
      by (metis of_int_1_le_iff of_int_abs)
    ultimately have "1 \<le> \<bar>q - of_int z\<bar> * \<bar>of_int b :: rat\<bar>"
      by (metis abs_mult)
    then show ?thesis
      using b by (simp add: d_def field_simps)
  qed
  have err: "\<bar>q' - q\<bar> < d"
  proof -
    have "\<bar>a\<bar> < 2 ^ 53" using a unfolding safe_integer_def by linarith
    then have "\<bar>of_int a :: rat\<bar> < 2 ^ 53"
      by (metis of_int_abs of_int_less_numeral_power_cancel_iff)
    then have "\<bar>q\<bar> / 2 ^ 53 < d"
      using b by (simp add: q_def d_def field_simps)
    with close show ?thesis unfolding q_def by linarith
  qed
  have lo: "of_int f < q" and hi: "q < of_int f + 1"
    using notint [of f] notint [of "f + 1"] unfolding f_def by linarith+
  from gap [of f] lo have "d \<le> q - of_int f" by simp
  moreover from gap [of "f + 1"] hi have "d \<le> of_int f + 1 - q" by simp
  ultimately have "of_int f < q'" "q' < of_int f + 1"
    using err by linarith+
  then have "\<lceil>q'\<rceil> = f + 1"
    by (intro ceiling_unique) simp_all
  moreover from lo hi have "\<lceil>q\<rceil> = f + 1"
    by (intro ceiling_unique) simp_all
  ultimately show ?thesis by (simp add: q_def)
qed

text \<open>\<open>js_includes\<close> is the test for a contiguous occurrence.\<close>

lemma js_includes_iff: "js_includes s p \<longleftrightarrow> (\<exists>a b. s = a @ p @ b)"
proof (induction s)
  case Nil
  then show ?case by simp
next
  case (Cons c cs)
  have "take (length p) (c # cs) = p \<longleftrightarrow> (\<exists>b. c # cs = p @ b)"
    by (metis append_eq_conv_conj)
  moreover have "(\<exists>a b. c # cs = a @ p @ b) \<longleftrightarrow> (\<exists>b. c # cs = p @ b) \<or> (\<exists>a b. cs = a @ p @ b)"
  proof
    assume "\<exists>a b. c # cs = a @ p @ b"
    then obtain a b where ab: "c # cs = a @ p @ b" by blast
    show "(\<exists>b. c # cs = p @ b) \<or> (\<exists>a b. cs = a @ p @ b)"
    proof (cases a)
      case Nil
      with ab show ?thesis by auto
    next
      case (Cons x a')
      with ab have "cs = a' @ p @ b" by simp
      then show ?thesis by blast
    qed
  next
    assume "(\<exists>b. c # cs = p @ b) \<or> (\<exists>a b. cs = a @ p @ b)"
    then show "\<exists>a b. c # cs = a @ p @ b"
    proof
      assume "\<exists>b. c # cs = p @ b"
      then obtain b where "c # cs = [] @ p @ b" by auto
      then show ?thesis by blast
    next
      assume "\<exists>a b. cs = a @ p @ b"
      then obtain a b where "c # cs = (c # a) @ p @ b" by auto
      then show ?thesis by blast
    qed
  qed
  ultimately show ?case using Cons.IH by simp
qed

subsection \<open>The page of an array of companies\<close>

lemma companies_array_object:
  assumes "js_prop data ''companies'' = JArr cs"
  shows "\<exists>kvs. data = JObj kvs"
  using assms by (cases data) (auto split: if_splits)

lemma transformResponse_array:
  assumes "js_prop data ''companies'' = JArr cs"
  shows "transformResponse s2n data page m =
           js_bind (ToNumber s2n (js_or (js_prop data ''totalResults'') (JNum (int (length cs)))))
             (\<lambda>t. Inr \<lparr> results = map (\<lambda>(i, x). transformCompany s2n x i) (enumerate 0 cs),
                        totalResults = js_or (js_prop data ''totalResults'') (JNum (int (length cs))),
                        currentPage = page,
                        totalPages = Math_ceil_div t m \<rparr>)"
proof -
  from assms obtain kvs where "data = JObj kvs"
    using companies_array_object by blast
  with assms show ?thesis
    by (simp add: transformResponse_def js_map_def Let_def)
qed

lemma transformResponse_results:
  assumes "js_prop data ''companies'' = JArr cs"
    and "transformResponse s2n data page m = Inr r"
  shows "results r = map (\<lambda>(i, x). transformCompany s2n x i) (enumerate 0 cs)"
  using assms(2) unfolding transformResponse_array [OF assms(1)]
  by (auto simp: js_bind_def split: sum.splits)

lemma transformResponse_nth:
  assumes "js_prop data ''companies'' = JArr cs"
    and "transformResponse s2n data page m = Inr r"
    and "i < length cs"
  shows "results r ! i = transformCompany s2n (cs ! i) i"
  using assms(3) unfolding transformResponse_results [OF assms(1,2)]
  by (simp add: nth_enumerate_eq)

lemma ToNumber_primitive: "primitive v \<Longrightarrow> \<exists>t. ToNumber s2n v = Inr t"
  by (cases v) (simp_all add: ToNumber_def primitive_def)

lemma transformResponse_returns:
  assumes "js_prop data ''companies'' = JArr cs"
    and "primitive (js_prop data ''totalResults'')"
  shows "\<exists>r. transformResponse s2n data page m = Inr r"
proof -
  have "primitive (js_or (js_prop data ''totalResults'') (JNum (int (length cs))))"
    using assms(2) by (simp add: js_or_def primitive_def)
  then obtain t
    where "ToNumber s2n (js_or (js_prop data ''totalResults'') (JNum (int (length cs)))) = Inr t"
    using ToNumber_primitive by blast
  then show ?thesis
    unfolding transformResponse_array [OF assms(1)] by simp
qed

lemma transformBody_null: "transformBody s2n JNull i = Inl TypeError"
  by (simp add: transformBody_def resolveName_def js_get_def)

lemma transformCompany_empty_object:
  "transformCompany s2n (JObj []) i =
     \<lparr> businessId = placeholderId i, name = [], registrationDate = [], endDate = JStr [],
       companyForm = [], location = [],
       detailsUri = BASE_URL @ ''/companies/'' @ placeholderId i \<rparr>"
  by (simp add: transformCompany_def transformBody_def resolveName_def js_get_def js_find_opt_def
      js_get_opt_def nonEmpty_def resolveCompanyForm_def resolveLocation_def resolveBusinessId_def
      resolveRegistrationDate_def js_or_def)

lemma placeholderId_examples:
  "placeholderId 0 = ''company-0''"
  "placeholderId 1 = ''company-1''"
  "placeholderId (Suc 0) = ''company-1''"
  "placeholderId 3 = ''company-3''"
  by (simp_all add: placeholderId_def NumberToString_nat.simps digit_char_def)

subsection \<open>Finding a name variant\<close>






section \<open>The claims\<close>

subsection \<open>C1: the orchestrator never throws\<close>

text \<open>
  C1. For every search criteria, every conversion of text to numbers and every behaviour of the
  network, the promise of \<open>fetchCompanies\<close> is fulfilled, never rejected. When the request
  fails (no response, a status outside 200..299, or a body that is not JSON), and when
  anything else throws inside the \<^verbatim>\<open>try\<close> block, it is fulfilled with the page of no
  results, total 0 and 0 pages, whose current page is the requested zero-based page, 0 when
  the criteria hold none.
\<close>

theorem fetchCompanies_never_throws:
  "(\<exists>page. fetchCompanies s2n fetch params = Inr page)
   \<and> (fetch_failed (fetch (formatSearchParams params))
        \<or> fetchBody s2n (fetch (formatSearchParams params)) params = Inl e \<longrightarrow>
        fetchCompanies s2n fetch params =
          Inr \<lparr> results = [], totalResults = JNum 0,
                currentPage = (case sp_page params of None \<Rightarrow> 0 | Some n \<Rightarrow> n),
                totalPages = Fin 0 \<rparr>)"
  unfolding fetchCompanies_def fetchBody_def fetch_failed_def emptyPage_def
  by (auto split: fetch_outcome.splits json_outcome.splits option.splits)

theorem fetchCompanies_never_throws_witness:
  "fetchCompanies noNumber (\<lambda>q. FetchResolved 500 (JsonResolved JNull))
      \<lparr> sp_location = Some ''Espoo'', sp_businessId = None, sp_registrationDateStart = None,
        sp_registrationDateEnd = None, sp_page = Some 2, sp_maxResults = None \<rparr>
     = Inr \<lparr> results = [], totalResults = JNum 0, currentPage = 2, totalPages = Fin 0 \<rparr>
   \<and> fetchCompanies noNumber (\<lambda>q. FetchRejected)
      \<lparr> sp_location = Some ''Espoo'', sp_businessId = None, sp_registrationDateStart = None,
        sp_registrationDateEnd = None, sp_page = None, sp_maxResults = None \<rparr>
     = Inr \<lparr> results = [], totalResults = JNum 0, currentPage = 0, totalPages = Fin 0 \<rparr>
   \<and> fetchCompanies noNumber (\<lambda>q. FetchResolved 200 JsonRejected)
      \<lparr> sp_location = Some ''Espoo'', sp_businessId = None, sp_registrationDateStart = None,
        sp_registrationDateEnd = None, sp_page = Some 2, sp_maxResults = None \<rparr>
     = Inr \<lparr> results = [], totalResults = JNum 0, currentPage = 2, totalPages = Fin 0 \<rparr>
   \<and> fetchCompanies noNumber
      (\<lambda>q. FetchResolved 200 (JsonResolved (JObj [(''companies'', JObj [])])))
      \<lparr> sp_location = Some ''Espoo'', sp_businessId = None, sp_registrationDateStart = None,
        sp_registrationDateEnd = None, sp_page = Some 2, sp_maxResults = None \<rparr>
     = Inr \<lparr> results = [], totalResults = JNum 0, currentPage = 2, totalPages = Fin 0 \<rparr>"
proof -
  let ?p2 = "\<lparr> sp_location = Some ''Espoo'', sp_businessId = None,
               sp_registrationDateStart = None, sp_registrationDateEnd = None,
               sp_page = Some 2, sp_maxResults = None \<rparr>"
  let ?p0 = "\<lparr> sp_location = Some ''Espoo'', sp_businessId = None,
               sp_registrationDateStart = None, sp_registrationDateEnd = None,
               sp_page = None, sp_maxResults = None \<rparr>"
  let ?empty = "\<lambda>n. Inr \<lparr> results = [], totalResults = JNum 0, currentPage = n,
                            totalPages = Fin 0 \<rparr>"
  have "fetchCompanies noNumber (\<lambda>q. FetchResolved 500 (JsonResolved JNull)) ?p2 = ?empty 2"
    using fetchCompanies_never_throws
      [of noNumber "\<lambda>q. FetchResolved 500 (JsonResolved JNull)" ?p2 TypeError]
    by (simp add: fetch_failed_def response_ok_def)
  moreover have "fetchCompanies noNumber (\<lambda>q. FetchRejected) ?p0 = ?empty 0"
    using fetchCompanies_never_throws [of noNumber "\<lambda>q. FetchRejected" ?p0 TypeError]
    by (simp add: fetch_failed_def)
  moreover have "fetchCompanies noNumber (\<lambda>q. FetchResolved 200 JsonRejected) ?p2 = ?empty 2"
    using fetchCompanies_never_throws
      [of noNumber "\<lambda>q. FetchResolved 200 JsonRejected" ?p2 TypeError]
    by (simp add: fetch_failed_def)
  moreover have "fetchBody noNumber (FetchResolved 200 (JsonResolved (JObj [(''companies'', JObj [])])))
                   ?p2 = Inl TypeError"
    by (simp add: fetchBody_def response_ok_def transformResponse_def js_map_def)
  then have "fetchCompanies noNumber
               (\<lambda>q. FetchResolved 200 (JsonResolved (JObj [(''companies'', JObj [])]))) ?p2
             = ?empty 2"
    using fetchCompanies_never_throws
      [of noNumber "\<lambda>q. FetchResolved 200 (JsonResolved (JObj [(''companies'', JObj [])]))"
        ?p2 TypeError]
    by simp
  ultimately show ?thesis
    by simp
qed

subsection \<open>C2: the identifier\<close>

text \<open>
  C2 as stated fails. It reads a key whenever its value is a plain string; the code asks
  for more: the guard \<^verbatim>\<open>bidObj.value && typeof bidObj.value === "string"\<close> refuses
  the empty text. With
  \<^verbatim>\<open>{value: ""}\<close> the identifier at position 0 is the placeholder, not the text of the key,
  and with \<^verbatim>\<open>{value: "", id: "X"}\<close> it is the text of the second key.
\<close>

theorem resolveBusinessId_empty_value:
  "js_prop (JObj [(''value'', JStr [])]) ''value'' = JStr []
   \<and> resolveBusinessId (JObj [(''value'', JStr [])]) 0 = ''company-0''
   \<and> js_prop (JObj [(''value'', JStr []), (''id'', JStr ''X'')]) ''value'' = JStr []
   \<and> resolveBusinessId (JObj [(''value'', JStr []), (''id'', JStr ''X'')]) 0 = ''X''"
  by (simp add: resolveBusinessId_def truthy_string_def placeholderId_examples)

text \<open>
  C2, amended. A plain string is the identifier as it is. Of an object the key \<open>value\<close> is
  probed first and the key \<open>id\<close> second, each used only if its value is a plain string that
  is not empty; if neither is, and also when the field is an array, absent or \<^verbatim>\<open>null\<close>,
  the identifier is \<^verbatim>\<open>company-\<close> followed by the position of the record in the batch.
\<close>

theorem resolveBusinessId_cases:
  "resolveBusinessId (JStr s) i = s
   \<and> resolveBusinessId (JObj kvs) i =
       (case nonempty_text (map_of kvs ''value'') of
          Some v \<Rightarrow> v
        | None \<Rightarrow> (case nonempty_text (map_of kvs ''id'') of
                    Some v \<Rightarrow> v
                  | None \<Rightarrow> ''company-'' @ NumberToString_nat i))
   \<and> resolveBusinessId (JArr xs) i = ''company-'' @ NumberToString_nat i
   \<and> resolveBusinessId JUndefined i = ''company-'' @ NumberToString_nat i
   \<and> resolveBusinessId JNull i = ''company-'' @ NumberToString_nat i"
  by (cases "map_of kvs ''value''"; cases "map_of kvs ''id''")
     (simp_all add: resolveBusinessId_def truthy_string_eq placeholderId_def array_index_def
        is_digit_def split: option.splits)

theorem resolveBusinessId_cases_witness:
  "resolveBusinessId (JStr ''1234567-8'') 3 = ''1234567-8''
   \<and> resolveBusinessId (JObj [(''value'', JStr ''1234567-8'')]) 3 = ''1234567-8''
   \<and> resolveBusinessId (JObj [(''id'', JStr ''X'')]) 3 = ''X''
   \<and> resolveBusinessId (JObj []) 3 = ''company-3''"
  using resolveBusinessId_cases [of "''1234567-8''" 3 "[(''value'', JStr ''1234567-8'')]" "[]"]
    resolveBusinessId_cases [of "[]" 3 "[(''id'', JStr ''X'')]" "[]"]
    resolveBusinessId_cases [of "[]" 3 "[]" "[]"]
  by (simp add: nonempty_text_def NumberToString_nat.simps digit_char_def)

subsection \<open>C3: a payload without companies\<close>

text \<open>
  C3. When the payload is absent (\<^verbatim>\<open>undefined\<close> or \<^verbatim>\<open>null\<close>) or has no property
  \<open>companies\<close>, \<open>transformResponse\<close> returns, without throwing, the page of no results,
  total 0 and 0 pages, on the page it was given.
\<close>

theorem transformResponse_missing_companies:
  "nullish data \<or> js_get data ''companies'' = Inr JUndefined \<Longrightarrow>
     transformResponse s2n data page maxResults =
       Inr \<lparr> results = [], totalResults = JNum 0, currentPage = page, totalPages = Fin 0 \<rparr>"
  unfolding transformResponse_def emptyPage_def js_get_def
  by (cases data) (auto split: if_splits)

theorem transformResponse_missing_companies_witness:
  "transformResponse noNumber (JObj [(''totalResults'', JNum 5)]) 3 100
     = Inr \<lparr> results = [], totalResults = JNum 0, currentPage = 3, totalPages = Fin 0 \<rparr>
   \<and> transformResponse noNumber JNull 3 100
     = Inr \<lparr> results = [], totalResults = JNum 0, currentPage = 3, totalPages = Fin 0 \<rparr>"
  using transformResponse_missing_companies [of "JObj [(''totalResults'', JNum 5)]" noNumber 3 100]
    transformResponse_missing_companies [of JNull noNumber 3 100]
  by (simp add: js_get_def)

subsection \<open>C4: a record that throws\<close>

text \<open>
  C4 as stated fails, twice. A sibling is not normalized as in a batch without the failing
  object: the placeholder identifier embeds the position by design, so the empty object
  after a \<^verbatim>\<open>null\<close> is \<^verbatim>\<open>company-1\<close>, and \<^verbatim>\<open>company-0\<close> once the \<^verbatim>\<open>null\<close> is taken
  out. And the request can still be aborted after the batch: the total is read without a
  check, and a total that is an object whose \<^verbatim>\<open>toString\<close> is not a function makes the
  division under \<^verbatim>\<open>Math.ceil\<close> throw.
\<close>

theorem sibling_placeholder_shifts:
  "transformResponse noNumber (JObj [(''companies'', JArr [JNull, JObj []])]) 0 100
     = Inr \<lparr> results =
               [\<lparr> businessId = ''error-0'', name = ''Error processing data'',
                   registrationDate = [], endDate = JStr [], companyForm = [], location = [],
                   detailsUri = [] \<rparr>,
                \<lparr> businessId = ''company-1'', name = [], registrationDate = [],
                   endDate = JStr [], companyForm = [], location = [],
                   detailsUri = BASE_URL @ ''/companies/company-1'' \<rparr>],
              totalResults = JNum 2, currentPage = 0, totalPages = Fin 1 \<rparr>
   \<and> transformResponse noNumber (JObj [(''companies'', JArr [JObj []])]) 0 100
     = Inr \<lparr> results =
               [\<lparr> businessId = ''company-0'', name = [], registrationDate = [],
                   endDate = JStr [], companyForm = [], location = [],
                   detailsUri = BASE_URL @ ''/companies/company-0'' \<rparr>],
              totalResults = JNum 1, currentPage = 0, totalPages = Fin 1 \<rparr>
   \<and> transformResponse noNumber
       (JObj [(''totalResults'', JObj [(''toString'', JNum 1)]), (''companies'', JArr [JNull])])
       0 100
     = Inl TypeError"
proof -
  have failing: "transformCompany noNumber JNull 0 =
      \<lparr> businessId = ''error-0'', name = ''Error processing data'', registrationDate = [],
        endDate = JStr [], companyForm = [], location = [], detailsUri = [] \<rparr>"
    by (simp add: transformCompany_def transformBody_null errorRecord_def
        NumberToString_nat.simps digit_char_def)
  have second: "transformCompany noNumber (JObj []) (Suc 0) =
      \<lparr> businessId = ''company-1'', name = [], registrationDate = [], endDate = JStr [],
        companyForm = [], location = [],
        detailsUri = BASE_URL @ ''/companies/company-1'' \<rparr>"
    by (simp add: transformCompany_empty_object placeholderId_examples)
  have first: "transformCompany noNumber (JObj []) 0 =
      \<lparr> businessId = ''company-0'', name = [], registrationDate = [], endDate = JStr [],
        companyForm = [], location = [],
        detailsUri = BASE_URL @ ''/companies/company-0'' \<rparr>"
    by (simp add: transformCompany_empty_object placeholderId_examples)
  show ?thesis
    by (simp add: transformResponse_array enumerate_eq_zip failing first second js_or_def
        ToNumber_def Math_ceil_div_Fin del: Math_ceil_div.simps)
qed

text \<open>
  C4, amended. Let the companies of a payload be an array, its total a primitive value (the
  total is read after the batch), and let the transformation of the object at position \<open>k\<close>
  throw. Then \<open>transformResponse\<close> returns a page with one record for each object; the
  record at \<open>k\<close> has the identifier \<^verbatim>\<open>error-\<close> followed by \<open>k\<close>, the name
  \<^verbatim>\<open>Error processing data\<close> and every other field empty; the record at any other position
  is the one its object gives at that position, and it is the same in any batch that holds
  another object at \<open>k\<close>.
\<close>

theorem failing_record_isolated:
  assumes "js_prop data ''companies'' = JArr cs"
    and "primitive (js_prop data ''totalResults'')"
    and "k < length cs"
    and "transformBody s2n (cs ! k) k = Inl e"
  shows "\<exists>r. transformResponse s2n data page m = Inr r
           \<and> length (results r) = length cs
           \<and> results r ! k =
               \<lparr> businessId = ''error-'' @ NumberToString_nat k,
                 name = ''Error processing data'',
                 registrationDate = [], endDate = JStr [], companyForm = [], location = [],
                 detailsUri = [] \<rparr>
           \<and> (\<forall>j<length cs. j \<noteq> k \<longrightarrow> results r ! j = transformCompany s2n (cs ! j) j)
           \<and> (js_prop data' ''companies'' = JArr (cs[k := x])
                \<and> transformResponse s2n data' page' m' = Inr r'
              \<longrightarrow> (\<forall>j<length cs. j \<noteq> k \<longrightarrow> results r' ! j = results r ! j))"
proof -
  from transformResponse_returns [OF assms(1,2)]
  obtain r where r: "transformResponse s2n data page m = Inr r" by blast
  have len: "length (results r) = length cs"
    by (simp add: transformResponse_results [OF assms(1) r])
  have nth: "results r ! j = transformCompany s2n (cs ! j) j" if "j < length cs" for j
    using transformResponse_nth [OF assms(1) r that] .
  have err: "results r ! k = errorRecord k"
    using nth [OF assms(3)] assms(4) by (simp add: transformCompany_def)
  have other: "\<forall>j<length cs. j \<noteq> k \<longrightarrow> results r' ! j = results r ! j"
    if d': "js_prop data' ''companies'' = JArr (cs[k := x])"
      and r': "transformResponse s2n data' page' m' = Inr r'"
  proof (intro allI impI)
    fix j assume j: "j < length cs" "j \<noteq> k"
    then have "results r' ! j = transformCompany s2n (cs[k := x] ! j) j"
      using transformResponse_nth [OF d' r'] by simp
    with j show "results r' ! j = results r ! j"
      by (simp add: nth)
  qed
  from r len nth err other show ?thesis
    by (auto simp: errorRecord_def)
qed

theorem failing_record_isolated_witness:
  "transformBody noNumber JNull 0 = Inl TypeError
   \<and> (\<exists>r. transformResponse noNumber (JObj [(''companies'', JArr [JNull, JObj []])]) 0 100 = Inr r
          \<and> length (results r) = 2
          \<and> businessId (results r ! 0) = ''error-0''
          \<and> name (results r ! 0) = ''Error processing data''
          \<and> businessId (results r ! 1) = ''company-1'')"
proof -
  have body: "transformBody noNumber ([JNull, JObj []] ! 0) 0 = Inl TypeError"
    by (simp add: transformBody_null)
  have comps: "js_prop (JObj [(''companies'', JArr [JNull, JObj []])]) ''companies''
                 = JArr [JNull, JObj []]"
    by simp
  have total: "primitive (js_prop (JObj [(''companies'', JArr [JNull, JObj []])]) ''totalResults'')"
    by (simp add: primitive_def)
  have pos: "(0::nat) < length [JNull, JObj []]"
    by simp
  from failing_record_isolated [OF comps total pos body,
      where page = 0 and m = 100 and data' = JNull and x = JNull and page' = 0 and m' = 100
        and r' = "emptyPage 0"]
  obtain r where r: "transformResponse noNumber (JObj [(''companies'', JArr [JNull, JObj []])]) 0 100 = Inr r"
    and len: "length (results r) = length [JNull, JObj []]"
    and err: "results r ! 0 =
               \<lparr> businessId = ''error-'' @ NumberToString_nat 0,
                 name = ''Error processing data'',
                 registrationDate = [], endDate = JStr [], companyForm = [], location = [],
                 detailsUri = [] \<rparr>"
    and rest: "\<forall>j<length [JNull, JObj []]. j \<noteq> 0 \<longrightarrow>
                 results r ! j = transformCompany noNumber ([JNull, JObj []] ! j) j"
    by auto
  from rest have "results r ! 1 = transformCompany noNumber (JObj []) 1"
    by simp
  then have "businessId (results r ! 1) = ''company-1''"
    by (simp add: transformCompany_empty_object placeholderId_examples)
  moreover from err have "businessId (results r ! 0) = ''error-0''"
    by (simp add: NumberToString_nat.simps digit_char_def)
  moreover from err have "name (results r ! 0) = ''Error processing data''"
    by simp
  ultimately show ?thesis
    using r len body by auto
qed

subsection \<open>C5: the total and the number of pages\<close>




subsection \<open>C6: the query parameters\<close>

text \<open>
  C6. The result of \<open>formatSearchParams\<close> has distinct keys. Each of \<open>businessId\<close>,
  \<open>location\<close>, \<open>registrationDateStart\<close> and \<open>registrationDateEnd\<close> is present exactly when
  the criteria set it (a field holding the empty text is not set, as in the search form),
  and carries its text as it is; \<open>totalResults\<close> is always \<^verbatim>\<open>true\<close>;
  \<open>page\<close> is always present, and is the decimal text of the page of the criteria plus one
  when that page is a safe integer; there is no other key.
  With only the page set, the keys are \<open>totalResults\<close> and \<open>page\<close>.
\<close>

theorem formatSearchParams_output:
  "distinct (map fst (formatSearchParams params))
   \<and> map_of (formatSearchParams params) ''businessId'' = actually_set (sp_businessId params)
   \<and> map_of (formatSearchParams params) ''location'' = actually_set (sp_location params)
   \<and> map_of (formatSearchParams params) ''registrationDateStart''
       = actually_set (sp_registrationDateStart params)
   \<and> map_of (formatSearchParams params) ''registrationDateEnd''
       = actually_set (sp_registrationDateEnd params)
   \<and> map_of (formatSearchParams params) ''totalResults'' = Some ''true''
   \<and> map_of (formatSearchParams params) ''page'' \<noteq> None
   \<and> (sp_page params = Some n \<and> safe_integer n \<longrightarrow>
         map_of (formatSearchParams params) ''page'' = Some (NumberToString (n + 1)))
   \<and> dom (map_of (formatSearchParams params))
       \<subseteq> {''businessId'', ''location'', ''registrationDateStart'', ''registrationDateEnd'',
           ''totalResults'', ''page''}
   \<and> (sp_businessId params = None \<and> sp_location params = None
        \<and> sp_registrationDateStart params = None \<and> sp_registrationDateEnd params = None
        \<longrightarrow> dom (map_of (formatSearchParams params)) = {''totalResults'', ''page''})"
proof -
  let ?out = "map_of (formatSearchParams params)"
  have keys: "map fst (formatSearchParams params) =
                (if actually_set (sp_businessId params) = None then [] else [''businessId''])
                @ (if actually_set (sp_location params) = None then [] else [''location''])
                @ (if actually_set (sp_registrationDateStart params) = None then []
                   else [''registrationDateStart''])
                @ (if actually_set (sp_registrationDateEnd params) = None then []
                   else [''registrationDateEnd''])
                @ [''totalResults'', ''page'']"
    by (simp add: formatSearchParams_def keys_set_if_truthy)
  have "distinct (map fst (formatSearchParams params))"
    unfolding keys by simp
  moreover have "?out ''businessId'' = actually_set (sp_businessId params)"
    by (simp add: formatSearchParams_def map_add_def map_of_set_if_truthy split: option.splits)
  moreover have "?out ''location'' = actually_set (sp_location params)"
    by (simp add: formatSearchParams_def map_add_def map_of_set_if_truthy split: option.splits)
  moreover have "?out ''registrationDateStart'' = actually_set (sp_registrationDateStart params)"
    by (simp add: formatSearchParams_def map_add_def map_of_set_if_truthy split: option.splits)
  moreover have "?out ''registrationDateEnd'' = actually_set (sp_registrationDateEnd params)"
    by (simp add: formatSearchParams_def map_add_def map_of_set_if_truthy split: option.splits)
  moreover have "?out ''totalResults'' = Some ''true''"
    by (simp add: formatSearchParams_def map_add_def map_of_set_if_truthy split: option.splits)
  moreover have "?out ''page'' \<noteq> None"
    by (simp add: formatSearchParams_def map_add_def map_of_set_if_truthy split: option.splits)
  moreover have "sp_page params = Some n \<and> safe_integer n
                   \<longrightarrow> ?out ''page'' = Some (NumberToString (n + 1))"
    by (simp add: formatSearchParams_def map_add_def map_of_set_if_truthy split: option.splits)
  moreover have "dom ?out \<subseteq> {''businessId'', ''location'', ''registrationDateStart'',
                     ''registrationDateEnd'', ''totalResults'', ''page''}"
    unfolding dom_map_of_conv_image_fst set_map [symmetric] keys by simp
  moreover have "sp_businessId params = None \<and> sp_location params = None
        \<and> sp_registrationDateStart params = None \<and> sp_registrationDateEnd params = None
        \<longrightarrow> dom ?out = {''totalResults'', ''page''}"
    unfolding dom_map_of_conv_image_fst set_map [symmetric] keys
    by (simp add: actually_set_def)
  ultimately show ?thesis
    by blast
qed

theorem formatSearchParams_output_witness:
  "map_of (formatSearchParams \<lparr> sp_location = None, sp_businessId = None,
       sp_registrationDateStart = None, sp_registrationDateEnd = None,
       sp_page = Some 2, sp_maxResults = None \<rparr>) ''page'' = Some ''3''
   \<and> dom (map_of (formatSearchParams \<lparr> sp_location = None, sp_businessId = None,
       sp_registrationDateStart = None, sp_registrationDateEnd = None,
       sp_page = Some 2, sp_maxResults = None \<rparr>)) = {''totalResults'', ''page''}
   \<and> map_of (formatSearchParams \<lparr> sp_location = Some ''Espoo'', sp_businessId = Some [],
       sp_registrationDateStart = None, sp_registrationDateEnd = None,
       sp_page = Some 0, sp_maxResults = None \<rparr>) ''location'' = Some ''Espoo''
   \<and> map_of (formatSearchParams \<lparr> sp_location = Some ''Espoo'', sp_businessId = Some [],
       sp_registrationDateStart = None, sp_registrationDateEnd = None,
       sp_page = Some 0, sp_maxResults = None \<rparr>) ''businessId'' = None"
  using formatSearchParams_output [of "\<lparr> sp_location = None, sp_businessId = None,
       sp_registrationDateStart = None, sp_registrationDateEnd = None,
       sp_page = Some 2, sp_maxResults = None \<rparr>" 2]
    formatSearchParams_output [of "\<lparr> sp_location = Some ''Espoo'', sp_businessId = Some [],
       sp_registrationDateStart = None, sp_registrationDateEnd = None,
       sp_page = Some 0, sp_maxResults = None \<rparr>" 0]
  by (simp add: NumberToString_def NumberToString_nat.simps digit_char_def actually_set_def
      safe_integer_def)

subsection \<open>C7: the registration date\<close>

text \<open>
  C7 as stated fails. It reads a key whenever its value is a plain string; the code refuses
  the empty text here too: with \<^verbatim>\<open>{value: ""}\<close> the date is not the empty text of the key but the
  JSON text of the whole object.
\<close>

theorem resolveRegistrationDate_empty_value:
  "js_prop (JObj [(''value'', JStr [])]) ''value'' = JStr []
   \<and> resolveRegistrationDate (JObj [(''value'', JStr [])])
       = [CHR ''{'', CHR 0x22, CHR ''v'', CHR ''a'', CHR ''l'', CHR ''u'', CHR ''e'', CHR 0x22,
          CHR '':'', CHR 0x22, CHR 0x22, CHR ''}'']"
  by (simp add: resolveRegistrationDate_def truthy_string_def QuoteJSONString_def QuoteJSONChar_def)

text \<open>
  C7, amended. A plain string is the date as it is. Of an object the key \<open>value\<close> is probed
  first and the key \<open>registrationDate\<close> second, each used only if its value is a plain string
  that is not empty; as a last resort the object is serialized to JSON text, which never
  fails on a parsed value, and the date is that text, or the empty text when the text is
  \<^verbatim>\<open>{}\<close> or contains \<^verbatim>\<open>[object Object]\<close>. When the field is absent the date is the empty
  text.
\<close>

theorem resolveRegistrationDate_cases:
  "resolveRegistrationDate (JStr s) = s
   \<and> JSON_stringify (JObj kvs) \<noteq> None
   \<and> resolveRegistrationDate (JObj kvs) =
       (case nonempty_text (map_of kvs ''value'') of
          Some v \<Rightarrow> v
        | None \<Rightarrow> (case nonempty_text (map_of kvs ''registrationDate'') of
                    Some v \<Rightarrow> v
                  | None \<Rightarrow> (case JSON_stringify (JObj kvs) of
                              Some t \<Rightarrow>
                                if t = ''{}'' \<or> js_includes t ''[object Object]'' then [] else t
                            | None \<Rightarrow> [])))
   \<and> resolveRegistrationDate JUndefined = []"
  by (cases "map_of kvs ''value''"; cases "map_of kvs ''registrationDate''")
     (simp_all add: resolveRegistrationDate_def truthy_string_eq split: option.splits)

theorem resolveRegistrationDate_cases_witness:
  "resolveRegistrationDate (JStr ''2020-01-31'') = ''2020-01-31''
   \<and> resolveRegistrationDate (JObj [(''value'', JStr ''2020-01-31'')]) = ''2020-01-31''
   \<and> resolveRegistrationDate (JObj [(''registrationDate'', JStr ''2019-05-05'')]) = ''2019-05-05''
   \<and> resolveRegistrationDate (JObj []) = []
   \<and> resolveRegistrationDate (JObj [(''note'', JStr ''[object Object]'')]) = []
   \<and> resolveRegistrationDate (JObj [(''year'', JNum 2020)])
       = [CHR ''{'', CHR 0x22, CHR ''y'', CHR ''e'', CHR ''a'', CHR ''r'', CHR 0x22, CHR '':'',
          CHR ''2'', CHR ''0'', CHR ''2'', CHR ''0'', CHR ''}'']"
  using resolveRegistrationDate_cases [of "''2020-01-31''" "[(''value'', JStr ''2020-01-31'')]"]
    resolveRegistrationDate_cases [of "[]" "[(''registrationDate'', JStr ''2019-05-05'')]"]
    resolveRegistrationDate_cases [of "[]" "[]"]
    resolveRegistrationDate_cases [of "[]" "[(''note'', JStr ''[object Object]'')]"]
    resolveRegistrationDate_cases [of "[]" "[(''year'', JNum 2020)]"]
  by (simp add: nonempty_text_def QuoteJSONString_def QuoteJSONChar_def NumberToString_def
      NumberToString_nat.simps digit_char_def)

subsection \<open>C8: the display name\<close>



subsection \<open>C9: one object, one position, one record\<close>

text \<open>
  C9. The record of an object depends on the object and on its position only: when two
  payloads, or one payload normalized twice, hold the same object at the same position of
  their companies, the two pages hold the same record at that position, whatever the rest
  of the payloads, the page and the page size.
\<close>

theorem record_depends_on_object_and_position:
  assumes "js_prop data1 ''companies'' = JArr cs1"
    and "js_prop data2 ''companies'' = JArr cs2"
    and "transformResponse s2n data1 page1 m1 = Inr r1"
    and "transformResponse s2n data2 page2 m2 = Inr r2"
    and "i < length cs1" and "i < length cs2"
    and "cs1 ! i = cs2 ! i"
  shows "results r1 ! i = results r2 ! i"
  using transformResponse_nth [OF assms(1,3,5)] transformResponse_nth [OF assms(2,4,6)] assms(7)
  by simp

theorem record_depends_on_object_and_position_witness:
  "\<exists>r1 r2.
      transformResponse noNumber
        (JObj [(''companies'', JArr [JObj [(''businessId'', JStr ''1234567-8'')]])]) 0 100 = Inr r1
    \<and> transformResponse noNumber
        (JObj [(''totalResults'', JNum 7),
               (''companies'', JArr [JObj [(''businessId'', JStr ''1234567-8'')], JNull])]) 1 50
        = Inr r2
    \<and> results r1 ! 0 = results r2 ! 0"
proof -
  let ?c = "JObj [(''businessId'', JStr ''1234567-8'')]"
  let ?d1 = "JObj [(''companies'', JArr [?c])]"
  let ?d2 = "JObj [(''totalResults'', JNum 7), (''companies'', JArr [?c, JNull])]"
  have c1: "js_prop ?d1 ''companies'' = JArr [?c]"
    by simp
  have c2: "js_prop ?d2 ''companies'' = JArr [?c, JNull]"
    by simp
  from transformResponse_returns [OF c1, of noNumber 0 100]
  obtain r1 where r1: "transformResponse noNumber ?d1 0 100 = Inr r1"
    by (auto simp: primitive_def)
  from transformResponse_returns [OF c2, of noNumber 1 50]
  obtain r2 where r2: "transformResponse noNumber ?d2 1 50 = Inr r2"
    by (auto simp: primitive_def)
  from record_depends_on_object_and_position [OF c1 c2 r1 r2, of 0]
  have "results r1 ! 0 = results r2 ! 0"
    by simp
  with r1 r2 show ?thesis
    by blast
qed

subsection \<open>C10: an absent page\<close>

text \<open>
  C10. When the criteria hold no page, the parameter \<open>page\<close> is the text \<^verbatim>\<open>1\<close>, and the
  whole output is the output for the same criteria with page 0.
\<close>

theorem formatSearchParams_absent_page:
  "sp_page params = None \<Longrightarrow>
     map_of (formatSearchParams params) ''page'' = Some ''1''
     \<and> formatSearchParams params = formatSearchParams (params\<lparr>sp_page := Some 0\<rparr>)"
proof -
  assume "sp_page params = None"
  then have same: "formatSearchParams params = formatSearchParams (params\<lparr>sp_page := Some 0\<rparr>)"
    by (simp add: formatSearchParams_def)
  have one: "NumberToString 1 = ''1''"
    by (simp add: NumberToString_def NumberToString_nat.simps digit_char_def)
  have "map_of (formatSearchParams (params\<lparr>sp_page := Some 0\<rparr>)) ''page''
          = Some (NumberToString (0 + 1))"
    by (simp add: formatSearchParams_def map_add_def map_of_set_if_truthy split: option.splits)
  with same one show ?thesis
    by simp
qed

theorem formatSearchParams_absent_page_witness:
  "map_of (formatSearchParams \<lparr> sp_location = Some ''Espoo'', sp_businessId = None,
       sp_registrationDateStart = None, sp_registrationDateEnd = None,
       sp_page = None, sp_maxResults = None \<rparr>) ''page'' = Some ''1''
   \<and> formatSearchParams \<lparr> sp_location = Some ''Espoo'', sp_businessId = None,
       sp_registrationDateStart = None, sp_registrationDateEnd = None,
       sp_page = None, sp_maxResults = None \<rparr>
     = formatSearchParams (\<lparr> sp_location = Some ''Espoo'', sp_businessId = None,
       sp_registrationDateStart = None, sp_registrationDateEnd = None,
       sp_page = None, sp_maxResults = None \<rparr>\<lparr>sp_page := Some 0\<rparr>)"
  by (rule formatSearchParams_absent_page) simp

end
